theory Spec2Isabelle
  imports Main
begin

section \<open>Data model\<close>

text \<open>
  The message types of \<^verbatim>\<open>_message.MessageType\<close> that the scheduler sources name
  (\<^verbatim>\<open>MessageType.START\<close>, \<^verbatim>\<open>LOG\<close>, \<^verbatim>\<open>STATUS\<close>, \<^verbatim>\<open>WARN\<close>, \<^verbatim>\<open>FAIL\<close>, \<^verbatim>\<open>BUG\<close>,
  \<^verbatim>\<open>SUCCESS\<close>); every other type a plugin may use is \<open>OtherType\<close> with its name.
\<close>

datatype message_type =
  START | LOG | STATUS | WARN | FAIL | BUG | SUCCESS | OtherType string

text \<open>
  A \<^verbatim>\<open>Message\<close> object. \<open>unique_id\<close> is the id of the plugin the message is issued for,
  \<open>message_text\<close> is the attribute \<^verbatim>\<open>message\<close>, \<open>scheduler_flag\<close> the keyword
  \<^verbatim>\<open>scheduler\<close>; \<open>msg_action_name\<close> and \<open>msg_task_id\<close> are the attributes
  \<^verbatim>\<open>action_name\<close> and \<^verbatim>\<open>task_id\<close> that the child's handler tags on. The wall-clock
  attribute \<^verbatim>\<open>elapsed\<close> is not modelled.
\<close>

record message =
  unique_id :: nat
  message_type :: message_type
  message_text :: string
  detail :: "string option"
  logfile :: "string option"
  sandbox :: "string option"
  scheduler_flag :: bool
  msg_action_name :: "string option"
  msg_task_id :: "nat option"

text \<open>Python objects that travel in envelopes and are stored in the fields of a Job.\<close>

datatype pyvalue =
    PyNone
  | PyBool bool
  | PyInt int
  | PyStr string
  | PyList "pyvalue list"
  | PyDict "(string \<times> pyvalue) list"
  | PyMessage message

text \<open>\<^verbatim>\<open>class Envelope\<close>: the fields \<^verbatim>\<open>message_type\<close> (a string) and \<^verbatim>\<open>message\<close>.\<close>

datatype envelope = Envelope string pyvalue

text \<open>The exceptions the modelled code can raise.\<close>

datatype error =
  AssertionError | KeyError | TypeError | AttributeError | PermissionError | Exception

text \<open>
  What the sources read of an element: its name, \<^verbatim>\<open>_get_unique_id()\<close>,
  \<^verbatim>\<open>_get_workspace()\<close> (\<open>None\<close> when the element has no workspace, otherwise the
  workspace's \<^verbatim>\<open>to_dict()\<close>), the dump of its environment and the name of the log file
  that \<^verbatim>\<open>_logging_enabled\<close> yields.
\<close>

record element =
  element_name :: string
  get_unique_id :: nat
  get_workspace :: "pyvalue option"
  env_dump :: string
  logging_enabled :: string

text \<open>The context as the child's message handler reads it: \<^verbatim>\<open>context.silent_messages()\<close>.\<close>

record "context" =
  silent_messages :: bool

text \<open>A \<^verbatim>\<open>BstError\<close>: \<^verbatim>\<open>str(e)\<close>, \<^verbatim>\<open>e.detail\<close>, \<^verbatim>\<open>e.sandbox\<close>, \<^verbatim>\<open>e.domain\<close>, \<^verbatim>\<open>e.reason\<close>.\<close>

record bst_error =
  err_str :: string
  err_detail :: "string option"
  err_sandbox :: "string option"
  domain :: pyvalue
  reason :: pyvalue

text \<open>
  One run of \<^verbatim>\<open>action_cb(element)\<close> inside a worker: the messages the action issues
  through the context while it runs (each with the context as it is at that moment), and
  how the call ends: it returns a value, raises a \<^verbatim>\<open>BstError\<close>, or raises any other
  exception (carrying the formatted traceback).
\<close>

datatype action_result =
  Returned pyvalue | RaisedBstError bst_error | RaisedException string

record action_run =
  emitted :: "(message \<times> context) list"
  outcome :: action_result

text \<open>
  What the parent process does to the world around the Job, in the order it happens:
  calls on the event loop, the start of a worker process, signals delivered by
  \<^verbatim>\<open>os.kill\<close>, messages handed to \<^verbatim>\<open>scheduler.context.message\<close>, calls of
  \<^verbatim>\<open>set_last_task_error\<close>, the assignments to \<^verbatim>\<open>self.result\<close> and
  \<^verbatim>\<open>self.workspace_dict\<close>, and calls of \<^verbatim>\<open>complete_cb\<close> (with \<open>success\<close> and
  \<open>result\<close>).
\<close>

datatype signal = SIGTSTP | SIGCONT

datatype event =
    AddReader
  | RemoveReader
  | RemoveSignalHandler
  | AddSignalHandler
  | ProcessStart nat
  | AddChildHandler nat
  | Kill nat signal
  | ContextMessage pyvalue
  | SetLastTaskError pyvalue pyvalue
  | AssignResult pyvalue
  | AssignWorkspace pyvalue
  | CompleteCb bool pyvalue

text \<open>
  \<^verbatim>\<open>class Job\<close>. \<open>action_cb n\<close> is the run of \<^verbatim>\<open>action_cb(element)\<close> in the worker of
  try \<open>n\<close>. \<open>process\<close> is the pid of \<^verbatim>\<open>self.process\<close> (\<open>None\<close> before the first spawn),
  \<open>child_handler\<close> the pid for which \<^verbatim>\<open>watcher.add_child_handler\<close> has registered
  \<^verbatim>\<open>parent_child_completed\<close> and not yet fired it, \<open>queue\<close> the envelopes waiting in
  \<^verbatim>\<open>self.queue\<close>. The last three fields are the world the Job acts on:
  \<^verbatim>\<open>self.scheduler.internal_stops\<close>, the global slot of \<^verbatim>\<open>set_last_task_error\<close>, and the
  trace of events.
\<close>

record job =
  action_name :: string
  action_cb :: "int \<Rightarrow> action_run"
  element :: element
  listening :: bool
  suspended :: bool
  max_retries :: int
  process :: "nat option"
  child_handler :: "nat option"
  pid :: "nat option"
  result :: pyvalue
  workspace_dict :: pyvalue
  tries :: int
  queue :: "envelope list"
  internal_stops :: int
  last_task_error :: "(pyvalue \<times> pyvalue) option"
  trace :: "event list"

text \<open>\<^verbatim>\<open>Job.__init__\<close>, in a world with the given stop counter.\<close>

definition Job :: "int \<Rightarrow> element \<Rightarrow> string \<Rightarrow> (int \<Rightarrow> action_run) \<Rightarrow> int \<Rightarrow> job" where
  "Job stops el name cb retries =
     \<lparr> action_name = name, action_cb = cb, element = el, listening = False,
       suspended = False, max_retries = retries, process = None, child_handler = None,
       pid = None, result = PyNone, workspace_dict = PyNone, tries = 0, queue = [],
       internal_stops = stops, last_task_error = None, trace = [] \<rparr>"

section \<open>Child process\<close>

text \<open>
  The state of a worker: the envelopes it has put on the queue (\<^verbatim>\<open>self.queue.put\<close>) and
  the messages \<^verbatim>\<open>child_log\<close> has written to the log file, both oldest first.
\<close>

record child =
  sent :: "envelope list"
  logged :: "message list"

definition queue_put :: "envelope \<Rightarrow> child \<Rightarrow> child" where
  "queue_put e c = c\<lparr>sent := sent c @ [e]\<rparr>"

text \<open>
  \<^verbatim>\<open>child_log\<close> writes one formatted record of the message to the output file of the
  plugin; the model keeps the message as it is at that moment.
\<close>

definition child_log :: "message \<Rightarrow> child \<Rightarrow> child" where
  "child_log m c = c\<lparr>logged := logged c @ [m]\<rparr>"

text \<open>
  \<^verbatim>\<open>child_message_handler\<close>. \<open>um\<close> is the list \<^verbatim>\<open>_message.unconditional_messages\<close>,
  which the sources import and do not define.
\<close>

definition child_message_handler ::
  "message_type list \<Rightarrow> job \<Rightarrow> message \<Rightarrow> context \<Rightarrow> child \<Rightarrow> child" where
  "child_message_handler um j m ctx c =
     (let m1 = m\<lparr>msg_action_name := Some (action_name j),
                  msg_task_id := Some (get_unique_id (element j))\<rparr>;
          c1 = child_log m1 c;
          m2 = (if message_type m1 = FAIL \<and> tries j \<le> max_retries j
                then m1\<lparr>message_type := WARN\<rparr> else m1)
      in if silent_messages ctx \<and> message_type m2 \<notin> set um then c1
         else if message_type m2 = LOG then c1
         else queue_put (Envelope ''message'' (PyMessage m2)) c1)"

text \<open>
  \<^verbatim>\<open>Job.message\<close> called in the child: the context's handler there is
  \<^verbatim>\<open>child_message_handler\<close> (installed first thing by \<^verbatim>\<open>child_action\<close>).
\<close>

definition Message ::
  "nat \<Rightarrow> message_type \<Rightarrow> string \<Rightarrow> string option \<Rightarrow> string option \<Rightarrow> string option \<Rightarrow> message" where
  "Message uid ty text dt lf sb =
     \<lparr> unique_id = uid, message_type = ty, message_text = text, detail = dt, logfile = lf,
       sandbox = sb, scheduler_flag = True, msg_action_name = None, msg_task_id = None \<rparr>"

definition child_message ::
  "message_type list \<Rightarrow> job \<Rightarrow> context \<Rightarrow> message_type \<Rightarrow> string \<Rightarrow> string option \<Rightarrow>
   string option \<Rightarrow> string option \<Rightarrow> child \<Rightarrow> child" where
  "child_message um j ctx ty text dt lf sb c =
     child_message_handler um j (Message (get_unique_id (element j)) ty text dt lf sb) ctx c"

definition child_send_error :: "bst_error \<Rightarrow> child \<Rightarrow> child" where
  "child_send_error e c =
     queue_put (Envelope ''error'' (PyDict [(''domain'', domain e), (''reason'', reason e)])) c"

definition child_send_result :: "pyvalue \<Rightarrow> child \<Rightarrow> child" where
  "child_send_result r c = (if r \<noteq> PyNone then queue_put (Envelope ''result'' r) c else c)"

definition child_send_workspace :: "element \<Rightarrow> child \<Rightarrow> child" where
  "child_send_workspace el c =
     (case get_workspace el of
        None \<Rightarrow> c
      | Some d \<Rightarrow> queue_put (Envelope ''workspace'' d) c)"

text \<open>Python's \<^verbatim>\<open>str\<close> of an integer, for \<^verbatim>\<open>"Try #{} failed, retrying".format(self.tries)\<close>.\<close>

fun digits :: "nat \<Rightarrow> string" where
  "digits n =
     (if n < 10 then [char_of (48 + n)] else digits (n div 10) @ [char_of (48 + n mod 10)])"

declare digits.simps [simp del]

definition str_int :: "int \<Rightarrow> string" where
  "str_int i = (if i < 0 then CHR ''-'' # digits (nat (- i)) else digits (nat i))"

text \<open>The messages the action issues while it runs, each through the handler.\<close>

fun child_emit :: "message_type list \<Rightarrow> job \<Rightarrow> (message \<times> context) list \<Rightarrow> child \<Rightarrow> child" where
  "child_emit um j [] c = c"
| "child_emit um j ((m, ctx) # ms) c = child_emit um j ms (child_message_handler um j m ctx c)"

text \<open>
  \<^verbatim>\<open>child_action\<close>, run in the worker forked by \<^verbatim>\<open>spawn\<close> (so \<open>j\<close> is the Job as it is
  after \<^verbatim>\<open>self.tries += 1\<close>), with \<open>ctx\<close> the context at the messages the function
  issues itself and \<open>run\<close> what \<^verbatim>\<open>self.action_cb(element)\<close> does. The result is the
  worker's final state and the exit code that \<^verbatim>\<open>child_shutdown\<close> passes to
  \<^verbatim>\<open>sys.exit\<close>.
\<close>

definition child_action ::
  "message_type list \<Rightarrow> job \<Rightarrow> context \<Rightarrow> action_run \<Rightarrow> child \<times> int" where
  "child_action um j ctx run =
     (let el = element j;
          filename = Some (logging_enabled el);
          c0 = \<lparr> sent = [], logged = [] \<rparr>;
          c1 = child_message um j ctx START (action_name j) None filename None c0;
          c2 = child_message um j ctx LOG
                 (''Build environment for element '' @ element_name el)
                 (Some (env_dump el)) filename None c1;
          c3 = child_emit um j (emitted run) c2
      in case outcome run of
           RaisedBstError e \<Rightarrow>
             (let c4 = (if tries j \<le> max_retries j
                        then child_message um j ctx FAIL
                               (''Try #'' @ str_int (tries j) @ '' failed, retrying'')
                               None None None c3
                        else child_message um j ctx FAIL (err_str e) (err_detail e)
                               filename (err_sandbox e) c3);
                  c5 = child_send_workspace el c4;
                  c6 = child_send_error e c5
              in (c6, 1))
         | RaisedException tb \<Rightarrow>
             (let c4 = child_message um j ctx BUG (action_name j)
                         (Some (''An unhandled exception occured:'' @ [CHR 10, CHR 10] @ tb))
                         filename None c3
              in (c4, 1))
         | Returned r \<Rightarrow>
             (let c4 = child_send_workspace el c3;
                  c5 = child_send_result r c4;
                  c6 = child_message um j ctx SUCCESS (action_name j) None filename None c5
              in (c6, 0)))"

section \<open>Parent process\<close>

definition parent_start_listening :: "job \<Rightarrow> job" where
  "parent_start_listening j =
     (if \<not> listening j then j\<lparr>listening := True, trace := trace j @ [AddReader]\<rparr> else j)"

definition parent_stop_listening :: "job \<Rightarrow> job" where
  "parent_stop_listening j =
     (if listening j then j\<lparr>listening := False, trace := trace j @ [RemoveReader]\<rparr> else j)"

text \<open>
  \<^verbatim>\<open>spawn\<close>; \<open>p\<close> is the pid the operating system gives the started process.
\<close>

definition spawn :: "nat \<Rightarrow> job \<Rightarrow> job" where
  "spawn p j =
     (let j1 = j\<lparr>tries := tries j + 1\<rparr>;
          j2 = parent_start_listening j1;
          j3 = j2\<lparr>process := Some p,
                   trace := trace j2 @ [RemoveSignalHandler, ProcessStart p, AddSignalHandler]\<rparr>;
          j4 = j3\<lparr>pid := Some p\<rparr>
      in j4\<lparr>child_handler := Some p, trace := trace j4 @ [AddChildHandler p]\<rparr>)"

text \<open>
  \<^verbatim>\<open>Job.message\<close> called in the parent: the message goes to
  \<^verbatim>\<open>scheduler.context.message\<close>.
\<close>

definition parent_message :: "message_type \<Rightarrow> string \<Rightarrow> job \<Rightarrow> job" where
  "parent_message ty text j =
     j\<lparr>trace := trace j @
         [ContextMessage (PyMessage
            (Message (get_unique_id (element j)) ty text None None None))]\<rparr>"

text \<open>
  How a call of \<^verbatim>\<open>os.kill\<close> ends: the signal is sent, or the call raises
  \<^verbatim>\<open>ProcessLookupError\<close> (the process has exited), or it raises another
  \<^verbatim>\<open>OSError\<close>.
\<close>

datatype kill_result = Sent | ProcessLookupError | OtherOSError

text \<open>
  \<^verbatim>\<open>suspend\<close>; \<open>os_kill\<close> is what \<^verbatim>\<open>os.kill(pid, signal)\<close> does in the current state
  of the operating system. A Job that was never spawned has \<^verbatim>\<open>self.process = None\<close>, and
  reading its \<^verbatim>\<open>pid\<close> raises.
\<close>

definition suspend :: "(nat \<Rightarrow> signal \<Rightarrow> kill_result) \<Rightarrow> job \<Rightarrow> error + job" where
  "suspend os_kill j =
     (if \<not> suspended j then
        (let j1 = parent_message STATUS (action_name j @ '' suspending'') j
         in case process j1 of
              None \<Rightarrow> Inl AttributeError
            | Some p \<Rightarrow>
                (case os_kill p SIGTSTP of
                   Sent \<Rightarrow>
                     Inr (j1\<lparr>trace := trace j1 @ [Kill p SIGTSTP],
                             internal_stops := internal_stops j1 + 1,
                             suspended := True\<rparr>)
                 | ProcessLookupError \<Rightarrow> Inr j1
                 | OtherOSError \<Rightarrow> Inl PermissionError))
      else Inr j)"

text \<open>Python's \<^verbatim>\<open>obj[key]\<close> for a string key.\<close>

fun getitem :: "pyvalue \<Rightarrow> string \<Rightarrow> error + pyvalue" where
  "getitem (PyDict kvs) k = (case map_of kvs k of None \<Rightarrow> Inl KeyError | Some v \<Rightarrow> Inr v)"
| "getitem v k = Inl TypeError"

fun parent_process_envelope :: "envelope \<Rightarrow> job \<Rightarrow> error + job" where
  "parent_process_envelope (Envelope ty m) j =
     (if \<not> listening j then Inr j
      else if ty = ''message'' then Inr (j\<lparr>trace := trace j @ [ContextMessage m]\<rparr>)
      else if ty = ''error'' then
        (case getitem m ''domain'' of
           Inl err \<Rightarrow> Inl err
         | Inr d \<Rightarrow>
             (case getitem m ''reason'' of
                Inl err \<Rightarrow> Inl err
              | Inr r \<Rightarrow>
                  Inr (j\<lparr>last_task_error := Some (d, r),
                          trace := trace j @ [SetLastTaskError d r]\<rparr>)))
      else if ty = ''result'' then
        (if result j \<noteq> PyNone then Inl AssertionError
         else Inr (j\<lparr>result := m, trace := trace j @ [AssignResult m]\<rparr>))
      else if ty = ''workspace'' then
        Inr (j\<lparr>workspace_dict := m, trace := trace j @ [AssignWorkspace m]\<rparr>)
      else Inl Exception)"

function parent_process_queue :: "job \<Rightarrow> error + job" where
  "parent_process_queue j =
     (case queue j of
        [] \<Rightarrow> Inr j
      | e # es \<Rightarrow>
          (case parent_process_envelope e (j\<lparr>queue := es\<rparr>) of
             Inl err \<Rightarrow> Inl err
           | Inr j' \<Rightarrow> parent_process_queue j'))"
  by pat_completeness auto
definition parent_shutdown :: "job \<Rightarrow> error + job" where
  "parent_shutdown j =
     (case parent_process_queue j of
        Inl err \<Rightarrow> Inl err
      | Inr j' \<Rightarrow> Inr (parent_stop_listening j'))"

text \<open>
  \<^verbatim>\<open>parent_child_completed\<close>; \<open>p\<close> is the pid a re-spawned worker gets. \<^verbatim>\<open>complete_cb\<close>
  is a callback of the Queue: its call is recorded in the trace.
\<close>

definition parent_child_completed :: "nat \<Rightarrow> job \<Rightarrow> int \<Rightarrow> error + job" where
  "parent_child_completed p j returncode =
     (case parent_shutdown j of
        Inl err \<Rightarrow> Inl err
      | Inr j' \<Rightarrow>
          (if returncode \<noteq> 0 \<and> tries j' \<le> max_retries j' then Inr (spawn p j')
           else Inr (j'\<lparr>trace := trace j' @ [CompleteCb (returncode = 0) (result j')]\<rparr>)))"

text \<open>
  The event loop around one Job. While a child handler is registered, the worker of
  the current try runs \<^verbatim>\<open>child_action\<close> to its exit, the envelopes it has put are on
  the queue, and the child watcher fires the handler (and forgets it) with the worker's
  exit code. \<open>pids n\<close> is the pid that a worker spawned when \<^verbatim>\<open>tries\<close> is \<open>n\<close> gets.
  The parent reads the queue whenever it is readable (\<^verbatim>\<open>parent_recv\<close>) and once more in
  \<^verbatim>\<open>parent_shutdown\<close>; as nothing else touches the Job while the worker runs, the model
  reads everything at the shutdown.
\<close>

function job_run :: "message_type list \<Rightarrow> context \<Rightarrow> (int \<Rightarrow> nat) \<Rightarrow> job \<Rightarrow> error + job" where
  "job_run um ctx pids j =
     (case child_handler j of
        None \<Rightarrow> Inr j
      | Some p \<Rightarrow>
          (let w = child_action um j ctx (action_cb j (tries j));
               j1 = j\<lparr>queue := queue j @ sent (fst w), child_handler := None\<rparr>
           in case parent_child_completed (pids (tries j1)) j1 (snd w) of
                Inl err \<Rightarrow> Inl err
              | Inr j2 \<Rightarrow> job_run um ctx pids j2))"
  by pat_completeness auto

text \<open>The life of a Job: the Queue spawns it once, then the event loop runs.\<close>

definition job_lifetime ::
  "message_type list \<Rightarrow> context \<Rightarrow> (int \<Rightarrow> nat) \<Rightarrow> job \<Rightarrow> error + job" where
  "job_lifetime um ctx pids j = job_run um ctx pids (spawn (pids (tries j)) j)"

section \<open>Stream.build: the queues of a build\<close>

text \<open>
  The Queue classes that \<^verbatim>\<open>Stream.build\<close> instantiates; \<open>FetchQueue\<close> carries its keyword
  \<^verbatim>\<open>skip_cached\<close>. A queue object is its class and the elements enqueued on it.
\<close>

datatype queue_class = TrackQueue | PullQueue | FetchQueue bool | BuildQueue | PushQueue

record 'e queue_obj =
  queue_class :: queue_class
  ready :: "'e list"

definition Queue :: "queue_class \<Rightarrow> 'e queue_obj" where
  "Queue cls = \<lparr> queue_class = cls, ready = [] \<rparr>"

text \<open>
  Modelled from the spec: \<^verbatim>\<open>Queue.enqueue\<close> (the Queue base class is not among the
  sources) puts the items on the queue's FIFO of ready items.
\<close>

definition enqueue :: "'e list \<Rightarrow> 'e queue_obj \<Rightarrow> 'e queue_obj" where
  "enqueue items q = q\<lparr>ready := ready q @ items\<rparr>"

text \<open>
  The part of \<^verbatim>\<open>Stream.build\<close> between the computation of the plan and
  \<^verbatim>\<open>scheduler.run(queues)\<close>: the list \<^verbatim>\<open>queues\<close> handed to the scheduler.
  \<open>track_elements\<close> is \<^verbatim>\<open>self._pipeline._track_elements\<close>, the two flags are what
  \<^verbatim>\<open>has_fetch_remotes()\<close> and \<^verbatim>\<open>has_push_remotes()\<close> of the artifact cache return,
  \<open>plan0\<close> is the plan before the tracked elements are taken out of it.
\<close>

definition build_queues :: "'e list \<Rightarrow> bool \<Rightarrow> bool \<Rightarrow> 'e list \<Rightarrow> 'e queue_obj list" where
  "build_queues track_elements has_fetch_remotes has_push_remotes plan0 =
     (let plan = filter (\<lambda>e. e \<notin> set track_elements) plan0;
          fetch = Queue (FetchQueue True);
          build = Queue BuildQueue;
          track = (if track_elements \<noteq> [] then Some (Queue TrackQueue) else None);
          q1 = (case track of None \<Rightarrow> [] | Some t \<Rightarrow> [t]);
          q2 = (if has_fetch_remotes then q1 @ [Queue PullQueue] else q1);
          q3 = q2 @ [fetch];
          q4 = q3 @ [build];
          q5 = (if has_push_remotes then q4 @ [Queue PushQueue] else q4)
      in if track \<noteq> None
         then (let q6 = q5[0 := enqueue track_elements (q5 ! 0)]
               in q6[1 := enqueue plan (q6 ! 1)])
         else q5[0 := enqueue plan (q5 ! 0)])"

section \<open>TrackQueue.done\<close>

text \<open>
  What \<^verbatim>\<open>TrackQueue.done\<close> does to the parent process, in order: a ref saved by
  \<^verbatim>\<open>source._save_ref\<close>, a warning issued by \<^verbatim>\<open>source.warn\<close> (with its detail), the
  push and pop of the message depth, and \<^verbatim>\<open>element._update_state()\<close>.
\<close>

datatype track_event =
    SaveRef nat pyvalue
  | Warn nat string string
  | PushMessageDepth bool
  | UpdateState nat
  | PopMessageDepth

text \<open>
  The loop over \<^verbatim>\<open>result\<close>. \<open>save_ref uid new_ref\<close> is what \<^verbatim>\<open>_save_ref\<close> of the source
  with that id does: \<open>None\<close> when it saves the ref, \<open>Some text\<close> when it raises a
  \<^verbatim>\<open>SourceError\<close> with that text.
\<close>

fun save_refs ::
  "(nat \<Rightarrow> pyvalue \<Rightarrow> string option) \<Rightarrow> (nat \<times> pyvalue) list \<Rightarrow> track_event list \<Rightarrow> track_event list" where
  "save_refs save_ref [] tr = tr"
| "save_refs save_ref ((uid, new_ref) # rest) tr =
     save_refs save_ref rest
       (case save_ref uid new_ref of
          None \<Rightarrow> tr @ [SaveRef uid new_ref]
        | Some text \<Rightarrow> tr @ [Warn uid ''Failed to update project file'' text])"

text \<open>
  \<^verbatim>\<open>TrackQueue.done(element, result, returncode)\<close>. \<open>result\<close> is \<open>None\<close> for Python's
  \<^verbatim>\<open>None\<close> (iterating over it raises), otherwise the list of pairs of a source id and
  its new ref. The value returned is \<^verbatim>\<open>changed\<close>.
\<close>

definition trackqueue_done ::
  "(nat \<Rightarrow> pyvalue \<Rightarrow> string option) \<Rightarrow> element \<Rightarrow> (nat \<times> pyvalue) list option \<Rightarrow> int \<Rightarrow>
   track_event list \<Rightarrow> error + (bool \<times> track_event list)" where
  "trackqueue_done save_ref el res returncode tr =
     (if returncode \<noteq> 0 then Inr (False, tr)
      else
        (let changed = False
         in case res of
              None \<Rightarrow> Inl TypeError
            | Some refs \<Rightarrow>
                (let tr1 = save_refs save_ref refs tr;
                     tr2 = tr1 @ [PushMessageDepth True, UpdateState (get_unique_id el),
                                  PopMessageDepth]
                 in Inr (changed, tr2))))"

section \<open>Example inputs\<close>

definition example_element :: element where
  "example_element =
     \<lparr> element_name = ''hello.bst'', get_unique_id = 7,
       get_workspace = Some (PyDict [(''path'', PyStr ''ws'')]),
       env_dump = ''PATH: /usr/bin'', logging_enabled = ''build.log'' \<rparr>"

definition example_error :: bst_error where
  "example_error =
     \<lparr> err_str = ''fetch failed'', err_detail = None, err_sandbox = None,
       domain = PyStr ''source'', reason = PyNone \<rparr>"

definition loud :: "context" where
  "loud = \<lparr> silent_messages = False \<rparr>"

text \<open>An action that fails with a domain error on every try, one that always hits a bug,
  and one that fails on its first try and returns a value on the second.\<close>

definition always_fails :: "int \<Rightarrow> action_run" where
  "always_fails n = \<lparr> emitted = [], outcome = RaisedBstError example_error \<rparr>"

definition always_bug :: "int \<Rightarrow> action_run" where
  "always_bug n = \<lparr> emitted = [], outcome = RaisedException ''KeyError'' \<rparr>"

definition fails_once :: "int \<Rightarrow> action_run" where
  "fails_once n =
     \<lparr> emitted = [],
       outcome = (if n = 1 then RaisedBstError example_error else Returned (PyStr ''ok'')) \<rparr>"

text \<open>An action run that returns a value at once.\<close>

definition returns_ok :: action_run where
  "returns_ok = \<lparr> emitted = [], outcome = Returned (PyStr ''ok'') \<rparr>"

text \<open>
  A list for \<^verbatim>\<open>unconditional_messages\<close>, and pids for the workers: the worker spawned
  when \<^verbatim>\<open>tries\<close> is \<open>n\<close> gets the pid \<open>100 + n\<close>.
\<close>

definition unconditional_example :: "message_type list" where
  "unconditional_example = [OtherType ''info'', WARN, FAIL, OtherType ''error'', BUG]"

definition pids_example :: "int \<Rightarrow> nat" where
  "pids_example n = 100 + nat n"

text \<open>
  A Job with the given \<^verbatim>\<open>max_retries\<close> whose first worker has put its workspace and its
  result on the queue, as \<^verbatim>\<open>child_action\<close> does once the action has returned, and has
  not exited yet.
\<close>

definition result_then_exit :: "int \<Rightarrow> job" where
  "result_then_exit retries =
     (spawn 100 (Job 0 example_element ''Build'' fails_once retries))
       \<lparr>queue := [Envelope ''workspace'' (PyDict [(''path'', PyStr ''ws'')]),
                  Envelope ''result'' (PyStr ''ok'')]\<rparr>"

text \<open>An operating system where the signal reaches the worker, and one where the worker
  is gone; a source that saves every ref.\<close>

definition kill_ok :: "nat \<Rightarrow> signal \<Rightarrow> kill_result" where
  "kill_ok p s = Sent"

definition kill_gone :: "nat \<Rightarrow> signal \<Rightarrow> kill_result" where
  "kill_gone p s = ProcessLookupError"

definition saves :: "nat \<Rightarrow> pyvalue \<Rightarrow> string option" where
  "saves uid new_ref = None"

section \<open>Reading envelopes and traces\<close>

fun env_type :: "envelope \<Rightarrow> string" where
  "env_type (Envelope ty m) = ty"

fun env_payload :: "envelope \<Rightarrow> pyvalue" where
  "env_payload (Envelope ty m) = m"

text \<open>The payloads of the envelopes of one type, in order.\<close>

definition payloads :: "string \<Rightarrow> envelope list \<Rightarrow> pyvalue list" where
  "payloads ty es = map env_payload (filter (\<lambda>e. env_type e = ty) es)"

text \<open>
  The worker of try \<open>n\<close> of a Job: \<^verbatim>\<open>child_action\<close> in the process forked when
  \<^verbatim>\<open>tries\<close> is \<open>n\<close>, running the action of that try.
\<close>

definition worker :: "message_type list \<Rightarrow> context \<Rightarrow> job \<Rightarrow> int \<Rightarrow> child \<times> int" where
  "worker um ctx j n = child_action um (j\<lparr>tries := n\<rparr>) ctx (action_cb j n)"

text \<open>The pids of the workers started, in order.\<close>

fun spawns :: "event list \<Rightarrow> nat list" where
  "spawns [] = []"
| "spawns (ProcessStart p # evs) = p # spawns evs"
| "spawns (ev # evs) = spawns evs"

text \<open>The calls of \<^verbatim>\<open>complete_cb\<close>, in order, each with \<open>success\<close> and \<open>result\<close>.\<close>

fun completions :: "event list \<Rightarrow> (bool \<times> pyvalue) list" where
  "completions [] = []"
| "completions (CompleteCb s r # evs) = (s, r) # completions evs"
| "completions (ev # evs) = completions evs"

text \<open>The values assigned to \<^verbatim>\<open>self.result\<close> and to \<^verbatim>\<open>self.workspace_dict\<close>, in order.\<close>

fun result_assignments :: "event list \<Rightarrow> pyvalue list" where
  "result_assignments [] = []"
| "result_assignments (AssignResult v # evs) = v # result_assignments evs"
| "result_assignments (ev # evs) = result_assignments evs"

fun workspace_assignments :: "event list \<Rightarrow> pyvalue list" where
  "workspace_assignments [] = []"
| "workspace_assignments (AssignWorkspace v # evs) = v # workspace_assignments evs"
| "workspace_assignments (ev # evs) = workspace_assignments evs"

text \<open>The suspend signals that \<^verbatim>\<open>os.kill\<close> has sent.\<close>

fun stops_sent :: "event list \<Rightarrow> nat" where
  "stops_sent [] = 0"
| "stops_sent (Kill p SIGTSTP # evs) = Suc (stops_sent evs)"
| "stops_sent (ev # evs) = stops_sent evs"

section \<open>Notions used in the proofs\<close>

text \<open>
  The envelopes that are not messages, and the envelopes \<^verbatim>\<open>child_send_workspace\<close> and
  \<^verbatim>\<open>child_send_result\<close> put.
\<close>

definition control_envelopes :: "envelope list \<Rightarrow> envelope list" where
  "control_envelopes es = filter (\<lambda>e. env_type e \<noteq> ''message'') es"

definition workspace_envelopes :: "element \<Rightarrow> envelope list" where
  "workspace_envelopes el =
     (case get_workspace el of None \<Rightarrow> [] | Some d \<Rightarrow> [Envelope ''workspace'' d])"

definition result_envelopes :: "pyvalue \<Rightarrow> envelope list" where
  "result_envelopes r = (if r \<noteq> PyNone then [Envelope ''result'' r] else [])"

text \<open>
  The envelopes the parent can process without raising, given the current value of
  \<^verbatim>\<open>self.result\<close>.
\<close>

fun drain_ok :: "pyvalue \<Rightarrow> envelope list \<Rightarrow> bool" where
  "drain_ok r [] = True"
| "drain_ok r (Envelope ty m # es) =
     (if ty = ''message'' \<or> ty = ''workspace'' then drain_ok r es
      else if ty = ''error'' then
        (\<exists>d x. m = PyDict [(''domain'', d), (''reason'', x)]) \<and> drain_ok r es
      else if ty = ''result'' then r = PyNone \<and> drain_ok m es
      else False)"

text \<open>
  The exit code of a worker, and the results and workspaces it delivers, read off the
  way its action ends.
\<close>

definition exit_code :: "action_run \<Rightarrow> int" where
  "exit_code run = (case outcome run of Returned r \<Rightarrow> 0 | _ \<Rightarrow> 1)"

definition delivered_results :: "action_run \<Rightarrow> pyvalue list" where
  "delivered_results run =
     (case outcome run of Returned r \<Rightarrow> (if r \<noteq> PyNone then [r] else []) | _ \<Rightarrow> [])"

definition delivered_workspaces :: "element \<Rightarrow> action_run \<Rightarrow> pyvalue list" where
  "delivered_workspaces el run =
     (case outcome run of
        RaisedException tb \<Rightarrow> []
      | _ \<Rightarrow> (case get_workspace el of None \<Rightarrow> [] | Some d \<Rightarrow> [d]))"

text \<open>What one run of the event loop, started at the current try, leaves behind.\<close>

definition run_summary :: "job \<Rightarrow> job \<Rightarrow> bool" where
  "run_summary j j' \<longleftrightarrow>
     child_handler j' = None \<and> action_cb j' = action_cb j \<and> element j' = element j \<and>
     action_name j' = action_name j \<and> max_retries j' = max_retries j \<and>
     tries j \<le> tries j' \<and>
     (\<forall>n. tries j \<le> n \<and> n < tries j' \<longrightarrow>
        exit_code (action_cb j n) \<noteq> 0 \<and> n \<le> max_retries j) \<and>
     (exit_code (action_cb j (tries j')) = 0 \<or> max_retries j < tries j') \<and>
     result j' = last (PyNone # delivered_results (action_cb j (tries j'))) \<and>
     length (spawns (trace j')) = length (spawns (trace j)) + nat (tries j' - tries j) \<and>
     completions (trace j') =
       completions (trace j) @ [(exit_code (action_cb j (tries j')) = 0, result j')] \<and>
     result_assignments (trace j') =
       result_assignments (trace j) @ delivered_results (action_cb j (tries j')) \<and>
     length (workspace_assignments (trace j')) \<le>
       length (workspace_assignments (trace j)) + nat (tries j' - tries j + 1) \<and>
     trace j' \<noteq> [] \<and>
     last (trace j') = CompleteCb (exit_code (action_cb j (tries j')) = 0) (result j')"

section \<open>Termination of the parent's loops, and what they leave alone\<close>

lemma parent_process_envelope_queue:
  "parent_process_envelope e j = Inr j' \<Longrightarrow> queue j' = queue j"
  by (cases e) (auto split: if_splits sum.splits)

termination parent_process_queue
  by (relation "measure (\<lambda>j. length (queue j))")
     (auto dest: parent_process_envelope_queue)

declare parent_process_queue.simps [simp del]

lemma parent_process_envelope_frame:
  "parent_process_envelope e j = Inr j' \<Longrightarrow>
     tries j' = tries j \<and> max_retries j' = max_retries j \<and> child_handler j' = child_handler j \<and>
     listening j' = listening j \<and> action_cb j' = action_cb j \<and> element j' = element j \<and>
     action_name j' = action_name j \<and> process j' = process j \<and> pid j' = pid j \<and>
     suspended j' = suspended j \<and> internal_stops j' = internal_stops j"
  by (cases e) (auto split: if_splits sum.splits)

lemma parent_process_queue_frame:
  "parent_process_queue j = Inr j' \<Longrightarrow>
     tries j' = tries j \<and> max_retries j' = max_retries j \<and> child_handler j' = child_handler j \<and>
     listening j' = listening j \<and> action_cb j' = action_cb j \<and> element j' = element j \<and>
     action_name j' = action_name j \<and> process j' = process j \<and> pid j' = pid j \<and>
     suspended j' = suspended j \<and> internal_stops j' = internal_stops j \<and> queue j' = []"
proof (induction j rule: parent_process_queue.induct)
  case (1 j)
  show ?case
  proof (cases "queue j")
    case Nil
    with "1.prems" show ?thesis by (simp add: parent_process_queue.simps)
  next
    case (Cons e es)
    with "1.prems" obtain j1 where
      a: "parent_process_envelope e (j\<lparr>queue := es\<rparr>) = Inr j1" and
      b: "parent_process_queue j1 = Inr j'"
      by (auto simp: parent_process_queue.simps [of j] split: sum.splits)
    from "1.IH" [OF Cons a b] parent_process_envelope_frame [OF a]
    show ?thesis by simp
  qed
qed

lemma parent_child_completed_measure:
  assumes "parent_child_completed p j rc = Inr j'"
  shows "max_retries j' = max_retries j \<and>
         (child_handler j' = child_handler j \<and> tries j' = tries j \<or>
          tries j \<le> max_retries j \<and> tries j' = tries j + 1)"
  using assms
  by (auto simp: parent_child_completed_def parent_shutdown_def parent_stop_listening_def
        spawn_def parent_start_listening_def Let_def
      split: sum.splits if_splits dest!: parent_process_queue_frame)

termination job_run
  apply (relation "measure (\<lambda>(um, ctx, pids, j).
           (if child_handler j = None then 0 else 1 + nat (max_retries j + 1 - tries j)))")
   apply simp
  apply (auto dest!: parent_child_completed_measure)
  done

declare job_run.simps [simp del]

section \<open>What a worker puts on the queue\<close>

lemma child_message_handler_sent:
  "\<exists>ms. sent (child_message_handler um j m ctx c) = sent c @ ms \<and>
        (\<forall>e \<in> set ms. env_type e = ''message'')"
  by (simp add: child_message_handler_def child_log_def queue_put_def Let_def)

lemma child_message_sent:
  "\<exists>ms. sent (child_message um j ctx ty text dt lf sb c) = sent c @ ms \<and>
        (\<forall>e \<in> set ms. env_type e = ''message'')"
  unfolding child_message_def by (rule child_message_handler_sent)

lemma child_emit_sent:
  "\<exists>ms. sent (child_emit um j xs c) = sent c @ ms \<and>
        (\<forall>e \<in> set ms. env_type e = ''message'')"
proof (induction xs arbitrary: c)
  case Nil
  show ?case by simp
next
  case (Cons x xs)
  obtain m ctx where x: "x = (m, ctx)" by (cases x)
  obtain ms1 where a: "sent (child_message_handler um j m ctx c) = sent c @ ms1"
      "\<forall>e \<in> set ms1. env_type e = ''message''"
    using child_message_handler_sent by blast
  obtain ms2 where b:
      "sent (child_emit um j xs (child_message_handler um j m ctx c)) =
         sent (child_message_handler um j m ctx c) @ ms2"
      "\<forall>e \<in> set ms2. env_type e = ''message''"
    using Cons.IH by blast
  show ?case
    by (rule exI [of _ "ms1 @ ms2"]) (use x a b in auto)
qed

lemma child_send_workspace_sent:
  "sent (child_send_workspace el c) = sent c @ workspace_envelopes el"
  by (simp add: child_send_workspace_def workspace_envelopes_def queue_put_def
      split: option.splits)

lemma child_send_result_sent:
  "sent (child_send_result r c) = sent c @ result_envelopes r"
  by (simp add: child_send_result_def result_envelopes_def queue_put_def)

lemma child_action_Returned:
  assumes "outcome run = Returned r"
  shows "\<exists>pre. sent (fst (child_action um j ctx run)) =
           pre @ workspace_envelopes (element j) @ result_envelopes r @
           (if silent_messages ctx \<and> SUCCESS \<notin> set um then []
            else [Envelope ''message''
                    (PyMessage ((Message (get_unique_id (element j)) SUCCESS (action_name j)
                        None (Some (logging_enabled (element j))) None)
                      \<lparr>msg_action_name := Some (action_name j),
                       msg_task_id := Some (get_unique_id (element j))\<rparr>))]) \<and>
         (\<forall>e \<in> set pre. env_type e = ''message'')"
proof -
  let ?c0 = "\<lparr> sent = [], logged = [] \<rparr>"
  let ?f = "Some (logging_enabled (element j))"
  let ?c1 = "child_message um j ctx START (action_name j) None ?f None ?c0"
  let ?c2 = "child_message um j ctx LOG
               (''Build environment for element '' @ element_name (element j))
               (Some (env_dump (element j))) ?f None ?c1"
  let ?c3 = "child_emit um j (emitted run) ?c2"
  obtain m1 where m1: "sent ?c1 = sent ?c0 @ m1" "\<forall>e \<in> set m1. env_type e = ''message''"
    using child_message_sent by blast
  obtain m2 where m2: "sent ?c2 = sent ?c1 @ m2" "\<forall>e \<in> set m2. env_type e = ''message''"
    using child_message_sent by blast
  obtain m3 where m3: "sent ?c3 = sent ?c2 @ m3" "\<forall>e \<in> set m3. env_type e = ''message''"
    using child_emit_sent by blast
  have pre: "sent ?c3 = m1 @ m2 @ m3" using m1 m2 m3 by simp
  have "sent (fst (child_action um j ctx run)) =
          sent ?c3 @ workspace_envelopes (element j) @ result_envelopes r @
           (if silent_messages ctx \<and> SUCCESS \<notin> set um then []
            else [Envelope ''message''
                    (PyMessage ((Message (get_unique_id (element j)) SUCCESS (action_name j)
                        None (Some (logging_enabled (element j))) None)
                      \<lparr>msg_action_name := Some (action_name j),
                       msg_task_id := Some (get_unique_id (element j))\<rparr>))])"
    using assms
    by (simp add: child_action_def Let_def child_send_workspace_sent child_send_result_sent
          child_message_def [of um j ctx SUCCESS] child_message_handler_def child_log_def
          queue_put_def Message_def)
  then show ?thesis
    using pre m1 m2 m3 by (intro exI [of _ "m1 @ m2 @ m3"]) auto
qed

section \<open>What the parent reads from the queue\<close>

lemma stops_sent_append:
  "stops_sent (xs @ ys) = stops_sent xs + stops_sent ys"
  by (induction xs rule: stops_sent.induct) simp_all

lemma spawns_append: "spawns (xs @ ys) = spawns xs @ spawns ys"
  by (induction xs rule: spawns.induct) simp_all

lemma completions_append: "completions (xs @ ys) = completions xs @ completions ys"
  by (induction xs rule: completions.induct) simp_all

lemma result_assignments_append:
  "result_assignments (xs @ ys) = result_assignments xs @ result_assignments ys"
  by (induction xs rule: result_assignments.induct) simp_all

lemma workspace_assignments_append:
  "workspace_assignments (xs @ ys) = workspace_assignments xs @ workspace_assignments ys"
  by (induction xs rule: workspace_assignments.induct) simp_all

lemmas observer_append =
  spawns_append completions_append result_assignments_append workspace_assignments_append

lemma parent_process_queue_Nil:
  "queue j = [] \<Longrightarrow> parent_process_queue j = Inr j"
  by (simp add: parent_process_queue.simps)

lemma parent_process_queue_Cons:
  "queue j = e # es \<Longrightarrow>
   parent_process_queue j =
     (case parent_process_envelope e (j\<lparr>queue := es\<rparr>) of
        Inl err \<Rightarrow> Inl err
      | Inr j' \<Rightarrow> parent_process_queue j')"
  by (simp add: parent_process_queue.simps [of j])

lemma parent_process_envelope_ok:
  assumes "listening j" "drain_ok (result j) (e # es)"
  shows "\<exists>j'. parent_process_envelope e j = Inr j' \<and> queue j' = queue j \<and>
           drain_ok (result j') es \<and>
           result j' = last (result j # payloads ''result'' [e]) \<and>
           spawns (trace j') = spawns (trace j) \<and>
           completions (trace j') = completions (trace j) \<and>
           result_assignments (trace j') = result_assignments (trace j) @ payloads ''result'' [e] \<and>
           workspace_assignments (trace j') =
             workspace_assignments (trace j) @ payloads ''workspace'' [e]"
  using assms
  by (cases e) (auto simp: payloads_def observer_append split: if_splits)

lemma parent_process_queue_drain:
  assumes "listening j" "queue j = es" "drain_ok (result j) es"
  shows "\<exists>j'. parent_process_queue j = Inr j' \<and>
           result j' = last (result j # payloads ''result'' es) \<and>
           spawns (trace j') = spawns (trace j) \<and>
           completions (trace j') = completions (trace j) \<and>
           result_assignments (trace j') = result_assignments (trace j) @ payloads ''result'' es \<and>
           workspace_assignments (trace j') =
             workspace_assignments (trace j) @ payloads ''workspace'' es"
  using assms
proof (induction es arbitrary: j)
  case Nil
  then show ?case by (simp add: parent_process_queue_Nil payloads_def)
next
  case (Cons e es)
  let ?j0 = "j\<lparr>queue := es\<rparr>"
  have "listening ?j0" "drain_ok (result ?j0) (e # es)" using Cons.prems by simp_all
  from parent_process_envelope_ok [OF this]
  obtain j1 where j1: "parent_process_envelope e ?j0 = Inr j1" "queue j1 = es"
      "drain_ok (result j1) es"
      "result j1 = last (result j # payloads ''result'' [e])"
      "spawns (trace j1) = spawns (trace j)"
      "completions (trace j1) = completions (trace j)"
      "result_assignments (trace j1) = result_assignments (trace j) @ payloads ''result'' [e]"
      "workspace_assignments (trace j1) =
         workspace_assignments (trace j) @ payloads ''workspace'' [e]"
    by auto
  have l1: "listening j1"
    using parent_process_envelope_frame [OF j1(1)] Cons.prems(1) by simp
  from Cons.IH [OF l1 j1(2) j1(3)]
  obtain j' where j': "parent_process_queue j1 = Inr j'"
      "result j' = last (result j1 # payloads ''result'' es)"
      "spawns (trace j') = spawns (trace j1)"
      "completions (trace j') = completions (trace j1)"
      "result_assignments (trace j') = result_assignments (trace j1) @ payloads ''result'' es"
      "workspace_assignments (trace j') =
         workspace_assignments (trace j1) @ payloads ''workspace'' es"
    by auto
  have run: "parent_process_queue j = Inr j'"
    using parent_process_queue_Cons [OF Cons.prems(2)] j1(1) j'(1) by simp
  have pay: "payloads ty (e # es) = payloads ty [e] @ payloads ty es" for ty
    by (simp add: payloads_def)
  have res: "result j' = last (result j # payloads ''result'' (e # es))"
    using j'(2) j1(4) by (simp add: pay)
  show ?case
    using run res j' j1 by (simp add: pay)
qed

section \<open>One worker, from its start to its reaping\<close>

lemma control_envelopes_append:
  "control_envelopes (xs @ ys) = control_envelopes xs @ control_envelopes ys"
  by (simp add: control_envelopes_def)

lemma control_envelopes_messages:
  "\<forall>e \<in> set ms. env_type e = ''message'' \<Longrightarrow> control_envelopes ms = []"
  by (simp add: control_envelopes_def)

lemma control_child_message:
  "control_envelopes (sent (child_message um j ctx ty text dt lf sb c)) =
     control_envelopes (sent c)"
proof -
  obtain ms where "sent (child_message um j ctx ty text dt lf sb c) = sent c @ ms"
      "\<forall>e \<in> set ms. env_type e = ''message''"
    using child_message_sent by blast
  then show ?thesis
    by (simp add: control_envelopes_append control_envelopes_messages)
qed

lemma control_child_emit:
  "control_envelopes (sent (child_emit um j xs c)) = control_envelopes (sent c)"
proof -
  obtain ms where "sent (child_emit um j xs c) = sent c @ ms"
      "\<forall>e \<in> set ms. env_type e = ''message''"
    using child_emit_sent by blast
  then show ?thesis
    by (simp add: control_envelopes_append control_envelopes_messages)
qed

lemma control_workspace_envelopes:
  "control_envelopes (workspace_envelopes el) = workspace_envelopes el"
  by (simp add: control_envelopes_def workspace_envelopes_def split: option.splits)

lemma control_result_envelopes:
  "control_envelopes (result_envelopes r) = result_envelopes r"
  by (simp add: control_envelopes_def result_envelopes_def)

lemma child_action_control:
  "control_envelopes (sent (fst (child_action um j ctx run))) =
     (case outcome run of
        Returned r \<Rightarrow> workspace_envelopes (element j) @ result_envelopes r
      | RaisedBstError e \<Rightarrow>
          workspace_envelopes (element j) @
          [Envelope ''error'' (PyDict [(''domain'', domain e), (''reason'', reason e)])]
      | RaisedException tb \<Rightarrow> [])"
  by (cases "outcome run")
     (simp_all add: child_action_def Let_def control_child_message control_child_emit
        child_send_workspace_sent child_send_result_sent child_send_error_def queue_put_def
        control_envelopes_append control_workspace_envelopes control_result_envelopes,
      simp_all add: control_envelopes_def)

lemma child_action_exit_code:
  "snd (child_action um j ctx run) = exit_code run"
  by (cases "outcome run") (simp_all add: child_action_def Let_def exit_code_def)

lemma drain_ok_control: "drain_ok r es = drain_ok r (control_envelopes es)"
proof (induction es arbitrary: r)
  case Nil
  show ?case by (simp add: control_envelopes_def)
next
  case (Cons e es)
  obtain ty m where e: "e = Envelope ty m" by (cases e)
  show ?case
    using Cons.IH [of r] Cons.IH [of m]
    by (simp add: e control_envelopes_def)
qed

lemma payloads_control:
  "ty \<noteq> ''message'' \<Longrightarrow> payloads ty es = payloads ty (control_envelopes es)"
  unfolding payloads_def control_envelopes_def
  by (induction es) auto

lemma child_action_drain_ok:
  "drain_ok PyNone (sent (fst (child_action um j ctx run)))"
  by (subst drain_ok_control, cases "outcome run")
     (simp_all add: child_action_control workspace_envelopes_def result_envelopes_def
        split: option.splits)

lemma child_action_results:
  "payloads ''result'' (sent (fst (child_action um j ctx run))) = delivered_results run"
  by (subst payloads_control, simp, cases "outcome run")
     (simp_all add: child_action_control workspace_envelopes_def result_envelopes_def
        delivered_results_def payloads_def split: option.splits)

lemma child_action_workspaces:
  "payloads ''workspace'' (sent (fst (child_action um j ctx run))) =
     delivered_workspaces (element j) run"
  by (subst payloads_control, simp, cases "outcome run")
     (simp_all add: child_action_control workspace_envelopes_def result_envelopes_def
        delivered_workspaces_def payloads_def split: option.splits)

lemma parent_shutdown_after_child:
  assumes "listening j" "queue j = []" "result j = PyNone"
  shows "\<exists>j1. parent_shutdown
                (j\<lparr>queue := queue j @ sent (fst (child_action um j ctx run)),
                   child_handler := None\<rparr>) = Inr j1 \<and>
           \<not> listening j1 \<and> queue j1 = [] \<and> child_handler j1 = None \<and>
           tries j1 = tries j \<and> max_retries j1 = max_retries j \<and>
           action_cb j1 = action_cb j \<and> element j1 = element j \<and>
           action_name j1 = action_name j \<and>
           result j1 = last (PyNone # delivered_results run) \<and>
           spawns (trace j1) = spawns (trace j) \<and>
           completions (trace j1) = completions (trace j) \<and>
           result_assignments (trace j1) = result_assignments (trace j) @ delivered_results run \<and>
           workspace_assignments (trace j1) =
             workspace_assignments (trace j) @ delivered_workspaces (element j) run"
proof -
  let ?es = "sent (fst (child_action um j ctx run))"
  let ?j0 = "j\<lparr>queue := queue j @ ?es, child_handler := None\<rparr>"
  have a: "listening ?j0" "queue ?j0 = ?es" "drain_ok (result ?j0) ?es"
    using assms by (simp_all add: child_action_drain_ok)
  from parent_process_queue_drain [OF a]
  obtain j' where j': "parent_process_queue ?j0 = Inr j'"
      "result j' = last (result ?j0 # payloads ''result'' ?es)"
      "spawns (trace j') = spawns (trace ?j0)"
      "completions (trace j') = completions (trace ?j0)"
      "result_assignments (trace j') = result_assignments (trace ?j0) @ payloads ''result'' ?es"
      "workspace_assignments (trace j') =
         workspace_assignments (trace ?j0) @ payloads ''workspace'' ?es"
    by blast
  note fr = parent_process_queue_frame [OF j'(1)]
  have "parent_shutdown ?j0 = Inr (parent_stop_listening j')"
    by (simp add: parent_shutdown_def j'(1))
  moreover have "listening j'" using fr a(1) by simp
  ultimately show ?thesis
    using fr j'(2-) assms(3)
    by (simp add: parent_stop_listening_def observer_append child_action_results
          child_action_workspaces)
qed

lemma delivered_results_failed:
  "exit_code run \<noteq> 0 \<Longrightarrow> delivered_results run = []"
  by (cases "outcome run") (simp_all add: exit_code_def delivered_results_def)

lemma job_run_done: "child_handler j = None \<Longrightarrow> job_run um ctx pids j = Inr j"
  by (simp add: job_run.simps)

lemma job_run_step:
  "child_handler j = Some p \<Longrightarrow>
   job_run um ctx pids j =
     (case parent_child_completed (pids (tries j))
             (j\<lparr>queue := queue j @ sent (fst (child_action um j ctx (action_cb j (tries j)))),
                child_handler := None\<rparr>)
             (snd (child_action um j ctx (action_cb j (tries j)))) of
        Inl err \<Rightarrow> Inl err
      | Inr j2 \<Rightarrow> job_run um ctx pids j2)"
  by (simp add: job_run.simps [of um ctx pids j] Let_def)

lemma delivered_workspaces_length: "length (delivered_workspaces el run) \<le> 1"
  by (simp add: delivered_workspaces_def split: action_result.splits option.splits)

lemma job_run_summary:
  assumes "listening j" "queue j = []" "result j = PyNone" "child_handler j = Some p"
  shows "\<exists>j'. job_run um ctx pids j = Inr j' \<and> run_summary j j'"
  using assms
proof (induction "nat (max_retries j + 1 - tries j)" arbitrary: j p rule: less_induct)
  case less
  let ?run = "action_cb j (tries j)"
  let ?w = "child_action um j ctx ?run"
  let ?j0 = "j\<lparr>queue := queue j @ sent (fst ?w), child_handler := None\<rparr>"
  from parent_shutdown_after_child [OF less.prems(1-3), of um ctx ?run]
  obtain j1 where j1: "parent_shutdown ?j0 = Inr j1"
      "\<not> listening j1" "queue j1 = []" "child_handler j1 = None"
      "tries j1 = tries j" "max_retries j1 = max_retries j"
      "action_cb j1 = action_cb j" "element j1 = element j"
      "action_name j1 = action_name j"
      "result j1 = last (PyNone # delivered_results ?run)"
      "spawns (trace j1) = spawns (trace j)"
      "completions (trace j1) = completions (trace j)"
      "result_assignments (trace j1) = result_assignments (trace j) @ delivered_results ?run"
      "workspace_assignments (trace j1) =
         workspace_assignments (trace j) @ delivered_workspaces (element j) ?run"
    by blast
  note wl = delivered_workspaces_length [of "element j" ?run]
  show ?case
  proof (cases "exit_code ?run \<noteq> 0 \<and> tries j \<le> max_retries j")
    case True
    let ?j2 = "spawn (pids (tries j)) j1"
    have pcc: "parent_child_completed (pids (tries j)) ?j0 (snd ?w) = Inr ?j2"
      using True j1(1,5,6) by (simp add: parent_child_completed_def child_action_exit_code)
    have step: "job_run um ctx pids j = job_run um ctx pids ?j2"
      using job_run_step [OF less.prems(4), of um ctx pids] pcc by simp
    have dr: "delivered_results ?run = []"
      using True delivered_results_failed by blast
    have j2: "listening ?j2" "queue ?j2 = []" "result ?j2 = PyNone"
        "child_handler ?j2 = Some (pids (tries j))"
        "tries ?j2 = tries j + 1" "max_retries ?j2 = max_retries j"
        "action_cb ?j2 = action_cb j" "element ?j2 = element j"
        "action_name ?j2 = action_name j"
        "spawns (trace ?j2) = spawns (trace j) @ [pids (tries j)]"
        "completions (trace ?j2) = completions (trace j)"
        "result_assignments (trace ?j2) = result_assignments (trace j)"
        "workspace_assignments (trace ?j2) =
           workspace_assignments (trace j) @ delivered_workspaces (element j) ?run"
      using j1 dr
      by (simp_all add: spawn_def parent_start_listening_def Let_def observer_append)
    have less': "nat (max_retries ?j2 + 1 - tries ?j2) < nat (max_retries j + 1 - tries j)"
      using True j2(5,6) by simp
    from less.hyps [OF less' j2(1-4)]
    obtain j' where j': "job_run um ctx pids ?j2 = Inr j'" "run_summary ?j2 j'"
      by blast
    have s: "child_handler j' = None" "action_cb j' = action_cb j" "element j' = element j"
        "action_name j' = action_name j" "max_retries j' = max_retries j"
        "tries j + 1 \<le> tries j'"
        "\<forall>n. tries j + 1 \<le> n \<and> n < tries j' \<longrightarrow>
           exit_code (action_cb j n) \<noteq> 0 \<and> n \<le> max_retries j"
        "exit_code (action_cb j (tries j')) = 0 \<or> max_retries j < tries j'"
        "result j' = last (PyNone # delivered_results (action_cb j (tries j')))"
        "length (spawns (trace j')) =
           length (spawns (trace ?j2)) + nat (tries j' - (tries j + 1))"
        "completions (trace j') =
           completions (trace j) @ [(exit_code (action_cb j (tries j')) = 0, result j')]"
        "result_assignments (trace j') =
           result_assignments (trace j) @ delivered_results (action_cb j (tries j'))"
        "length (workspace_assignments (trace j')) \<le>
           length (workspace_assignments (trace ?j2)) + nat (tries j' - (tries j + 1) + 1)"
        "trace j' \<noteq> []"
        "last (trace j') = CompleteCb (exit_code (action_cb j (tries j')) = 0) (result j')"
      using j'(2) j2(5-9,11,12) unfolding run_summary_def by simp_all
    have t1: "tries j \<le> tries j'" using s(6) by simp
    have t2: "\<forall>n. tries j \<le> n \<and> n < tries j' \<longrightarrow>
                exit_code (action_cb j n) \<noteq> 0 \<and> n \<le> max_retries j"
    proof (intro allI impI)
      fix n assume n: "tries j \<le> n \<and> n < tries j'"
      show "exit_code (action_cb j n) \<noteq> 0 \<and> n \<le> max_retries j"
      proof (cases "n = tries j")
        case True
        with \<open>exit_code ?run \<noteq> 0 \<and> tries j \<le> max_retries j\<close> show ?thesis by simp
      next
        case False
        with n have "tries j + 1 \<le> n \<and> n < tries j'" by simp
        with s(7) show ?thesis by blast
      qed
    qed
    have t3: "length (spawns (trace j')) = length (spawns (trace j)) + nat (tries j' - tries j)"
      using s(10) s(6) j2(10) by simp
    have t4: "length (workspace_assignments (trace j')) \<le>
                length (workspace_assignments (trace j)) + nat (tries j' - tries j + 1)"
      using s(13) s(6) j2(13) wl by simp
    have "run_summary j j'"
      unfolding run_summary_def
      using s(1-5) t1 t2 s(8,9) t3 s(11,12) t4 s(14,15) by blast
    with step j'(1) show ?thesis by auto
  next
    case False
    let ?j2 = "j1\<lparr>trace := trace j1 @ [CompleteCb (snd ?w = 0) (result j1)]\<rparr>"
    have pcc: "parent_child_completed (pids (tries j)) ?j0 (snd ?w) = Inr ?j2"
      using False j1(1,5,6) by (auto simp: parent_child_completed_def child_action_exit_code)
    have step: "job_run um ctx pids j = Inr ?j2"
      using job_run_step [OF less.prems(4), of um ctx pids] pcc j1(4)
      by (simp add: job_run_done)
    have "run_summary j ?j2"
      using j1 False wl unfolding run_summary_def
      by (auto simp: observer_append child_action_exit_code)
    with step show ?thesis by auto
  qed
qed

section \<open>The whole life of a Job\<close>

lemma spawn_Job:
  "listening (spawn p (Job stops el name cb N))"
  "queue (spawn p (Job stops el name cb N)) = []"
  "result (spawn p (Job stops el name cb N)) = PyNone"
  "child_handler (spawn p (Job stops el name cb N)) = Some p"
  "tries (spawn p (Job stops el name cb N)) = 1"
  "max_retries (spawn p (Job stops el name cb N)) = N"
  "action_cb (spawn p (Job stops el name cb N)) = cb"
  "element (spawn p (Job stops el name cb N)) = el"
  "action_name (spawn p (Job stops el name cb N)) = name"
  "spawns (trace (spawn p (Job stops el name cb N))) = [p]"
  "completions (trace (spawn p (Job stops el name cb N))) = []"
  "result_assignments (trace (spawn p (Job stops el name cb N))) = []"
  "workspace_assignments (trace (spawn p (Job stops el name cb N))) = []"
  by (simp_all add: spawn_def Job_def parent_start_listening_def Let_def)

lemma job_lifetime_summary:
  "\<exists>j'. job_lifetime um ctx pids (Job stops el name cb N) = Inr j' \<and>
        child_handler j' = None \<and> action_cb j' = cb \<and> element j' = el \<and>
        action_name j' = name \<and> max_retries j' = N \<and> 1 \<le> tries j' \<and>
        (\<forall>n. 1 \<le> n \<and> n < tries j' \<longrightarrow> exit_code (cb n) \<noteq> 0 \<and> n \<le> N) \<and>
        (exit_code (cb (tries j')) = 0 \<or> N < tries j') \<and>
        result j' = last (PyNone # delivered_results (cb (tries j'))) \<and>
        length (spawns (trace j')) = nat (tries j') \<and>
        completions (trace j') = [(exit_code (cb (tries j')) = 0, result j')] \<and>
        result_assignments (trace j') = delivered_results (cb (tries j')) \<and>
        length (workspace_assignments (trace j')) \<le> nat (tries j') \<and>
        trace j' \<noteq> [] \<and>
        last (trace j') = CompleteCb (exit_code (cb (tries j')) = 0) (result j')"
proof -
  let ?j = "spawn (pids (tries (Job stops el name cb N))) (Job stops el name cb N)"
  have "\<exists>j'. job_run um ctx pids ?j = Inr j' \<and> run_summary ?j j'"
    by (rule job_run_summary) (rule spawn_Job)+
  then obtain j' where j': "job_run um ctx pids ?j = Inr j'" "run_summary ?j j'"
    by blast
  have "job_lifetime um ctx pids (Job stops el name cb N) = Inr j'"
    using j'(1) by (simp add: job_lifetime_def)
  moreover have "1 \<le> tries j'"
    using j'(2) by (simp add: run_summary_def spawn_Job)
  ultimately show ?thesis
    using j'(2) unfolding run_summary_def spawn_Job
    by (intro exI [of _ j']) (simp add: nat_diff_distrib')
qed

lemma job_lifetime_all_fail:
  assumes "0 \<le> N" "\<forall>n. exit_code (cb n) \<noteq> 0"
  shows "\<exists>j'. job_lifetime um ctx pids (Job stops el name cb N) = Inr j' \<and>
           tries j' = N + 1 \<and> length (spawns (trace j')) = nat (N + 1) \<and>
           completions (trace j') = [(False, PyNone)] \<and> result j' = PyNone"
proof -
  from job_lifetime_summary [of um ctx pids stops el name cb N]
  obtain j' where j': "job_lifetime um ctx pids (Job stops el name cb N) = Inr j'"
      "1 \<le> tries j'"
      "\<forall>n. 1 \<le> n \<and> n < tries j' \<longrightarrow> exit_code (cb n) \<noteq> 0 \<and> n \<le> N"
      "exit_code (cb (tries j')) = 0 \<or> N < tries j'"
      "result j' = last (PyNone # delivered_results (cb (tries j')))"
      "length (spawns (trace j')) = nat (tries j')"
      "completions (trace j') = [(exit_code (cb (tries j')) = 0, result j')]"
    by blast
  have a: "N < tries j'" using j'(4) assms(2) by simp
  have b: "tries j' \<le> N + 1"
  proof (rule ccontr)
    assume "\<not> tries j' \<le> N + 1"
    then have "1 \<le> N + 1 \<and> N + 1 < tries j'" using assms(1) by simp
    with j'(3) have "N + 1 \<le> N" by blast
    then show False by simp
  qed
  have t: "tries j' = N + 1" using a b by simp
  have r: "result j' = PyNone"
    using j'(5) assms(2) by (simp add: delivered_results_failed)
  show ?thesis
    using j'(1,6,7) t r assms(2) by simp
qed

lemma exit_code_BstError: "outcome run = RaisedBstError e \<Longrightarrow> exit_code run = 1"
  by (simp add: exit_code_def)

lemma exit_code_Exception: "outcome run = RaisedException tb \<Longrightarrow> exit_code run = 1"
  by (simp add: exit_code_def)

lemma job_run_unfold:
  "job_run um ctx pids j =
     (if child_handler j = None then Inr j
      else case parent_child_completed (pids (tries j))
             (j\<lparr>queue := queue j @ sent (fst (child_action um j ctx (action_cb j (tries j)))),
                child_handler := None\<rparr>)
             (snd (child_action um j ctx (action_cb j (tries j)))) of
        Inl err \<Rightarrow> Inl err
      | Inr j2 \<Rightarrow> job_run um ctx pids j2)"
  by (cases "child_handler j") (simp_all add: job_run.simps [of um ctx pids j] Let_def)


lemma child_message_handler_static:
  assumes "action_name j' = action_name j" "element j' = element j" "tries j' = tries j"
    "max_retries j' = max_retries j"
  shows "child_message_handler um j' m ctx c = child_message_handler um j m ctx c"
  using assms by (simp add: child_message_handler_def)

lemma child_emit_static:
  assumes "action_name j' = action_name j" "element j' = element j" "tries j' = tries j"
    "max_retries j' = max_retries j"
  shows "child_emit um j' xs c = child_emit um j xs c"
proof (induction xs arbitrary: c)
  case Nil
  show ?case by simp
next
  case (Cons x xs)
  obtain m ctx where "x = (m, ctx)" by (cases x)
  then show ?case
    using Cons.IH child_message_handler_static [OF assms] by simp
qed

lemma child_action_static:
  assumes "action_name j' = action_name j" "element j' = element j" "tries j' = tries j"
    "max_retries j' = max_retries j"
  shows "child_action um j' ctx run = child_action um j ctx run"
  using assms child_emit_static [OF assms] child_message_handler_static [OF assms]
  by (cases "outcome run") (simp_all add: child_action_def child_message_def Let_def)

lemma worker_static:
  assumes "action_name j = action_name j0" "element j = element j0"
    "max_retries j = max_retries j0" "action_cb j = action_cb j0"
  shows "child_action um j ctx (action_cb j (tries j)) = worker um ctx j0 (tries j)"
  unfolding worker_def
  using child_action_static [of j "j0\<lparr>tries := tries j\<rparr>" um ctx "action_cb j (tries j)"] assms
  by simp


lemmas run_eval =
  job_lifetime_def Job_def spawn_def parent_start_listening_def parent_stop_listening_def
  parent_child_completed_def parent_shutdown_def parent_process_queue.simps
  child_action_def child_message_def child_message_handler_def Message_def child_log_def
  queue_put_def child_send_workspace_def child_send_result_def child_send_error_def
  str_int_def Let_def
  example_element_def example_error_def loud_def unconditional_example_def pids_example_def
  always_fails_def always_bug_def fails_once_def

lemma fails_once_tries:
  "\<exists>j'. job_lifetime unconditional_example loud pids_example
          (Job 0 example_element ''Fetch'' fails_once 2) = Inr j' \<and> tries j' = 2 \<and>
        spawns (trace j') = [100, 101] \<and>
        workspace_assignments (trace j') = 
          [PyDict [(''path'', PyStr ''ws'')], PyDict [(''path'', PyStr ''ws'')]]"
  apply (simp add: run_eval)
  apply (subst job_run_unfold, simp add: run_eval)
  apply (subst job_run_unfold, simp add: run_eval)
  apply (subst job_run_unfold, simp)
  done

lemma worker_fails_once_2:
  "snd (worker unconditional_example loud (Job 0 example_element ''Fetch'' fails_once 2) 2) = 0"
  "payloads ''result''
     (sent (fst (worker unconditional_example loud
        (Job 0 example_element ''Fetch'' fails_once 2) 2))) = [PyStr ''ok'']"
  by (simp_all add: worker_def payloads_def run_eval)


text \<open>
  When every worker of a Job runs \<^verbatim>\<open>child_action\<close> to its end, as in \<open>job_run\<close>,
  \<^verbatim>\<open>complete_cb\<close> is called exactly once, as the last thing that happens: every
  earlier worker exited with a code other than zero and was re-spawned. The call reports
  \<open>success\<close> as whether the last worker's exit code is zero, and as \<open>result\<close> the result
  that worker delivered, which is \<^verbatim>\<open>None\<close> when it failed. A worker that ends in another
  way (a signal, an exception outside the action) is not covered.
\<close>

lemma finished_workers_complete_once:
  "\<exists>j'. job_lifetime um ctx pids (Job stops el name cb N) = Inr j' \<and>
        completions (trace j') =
          [(snd (worker um ctx (Job stops el name cb N) (tries j')) = 0, result j')] \<and>
        last (trace j') =
          CompleteCb (snd (worker um ctx (Job stops el name cb N) (tries j')) = 0) (result j') \<and>
        result j' =
          last (PyNone #
            payloads ''result'' (sent (fst (worker um ctx (Job stops el name cb N) (tries j'))))) \<and>
        (snd (worker um ctx (Job stops el name cb N) (tries j')) \<noteq> 0 \<longrightarrow> result j' = PyNone) \<and>
        length (spawns (trace j')) = nat (tries j') \<and>
        (\<forall>n. 1 \<le> n \<and> n < tries j' \<longrightarrow> snd (worker um ctx (Job stops el name cb N) n) \<noteq> 0)"
proof -
  have w: "snd (worker um ctx (Job stops el name cb N) n) = exit_code (cb n)"
      "payloads ''result'' (sent (fst (worker um ctx (Job stops el name cb N) n))) =
         delivered_results (cb n)" for n
    by (simp_all add: worker_def child_action_exit_code child_action_results) 
       (simp_all add: Job_def)
  from job_lifetime_summary [of um ctx pids stops el name cb N]
  obtain j' where j': "job_lifetime um ctx pids (Job stops el name cb N) = Inr j'"
      "\<forall>n. 1 \<le> n \<and> n < tries j' \<longrightarrow> exit_code (cb n) \<noteq> 0 \<and> n \<le> N"
      "result j' = last (PyNone # delivered_results (cb (tries j')))"
      "length (spawns (trace j')) = nat (tries j')"
      "completions (trace j') = [(exit_code (cb (tries j')) = 0, result j')]"
      "last (trace j') = CompleteCb (exit_code (cb (tries j')) = 0) (result j')"
    by blast
  have "exit_code (cb (tries j')) \<noteq> 0 \<longrightarrow> result j' = PyNone"
    using j'(3) by (simp add: delivered_results_failed)
  then show ?thesis
    using j' unfolding w by blast
qed

lemma finished_workers_complete_once_example:
  "\<exists>j'. job_lifetime unconditional_example loud pids_example
          (Job 0 example_element ''Fetch'' fails_once 2) = Inr j' \<and>
        tries j' = 2 \<and>
        completions (trace j') = [(True, PyStr ''ok'')] \<and>
        last (trace j') = CompleteCb True (PyStr ''ok'') \<and>
        result j' = PyStr ''ok''"
proof -
  from fails_once_tries obtain j1 where j1:
    "job_lifetime unconditional_example loud pids_example
       (Job 0 example_element ''Fetch'' fails_once 2) = Inr j1" "tries j1 = 2"
    by blast
  from finished_workers_complete_once [of unconditional_example loud pids_example 0
      example_element "''Fetch''" fails_once 2]
  show ?thesis
    using j1 by (auto simp: worker_fails_once_2)
qed

section \<open>Retries after domain failures\<close>

text \<open>
  Claim C1. A Job with \<^verbatim>\<open>max_retries = N\<close> (\<open>N\<close> not negative) whose action raises a
  \<^verbatim>\<open>BstError\<close> on every try spawns exactly \<open>N + 1\<close> workers, ends with \<^verbatim>\<open>tries = N + 1\<close>
  and calls \<^verbatim>\<open>complete_cb\<close> once, with \<open>success = False\<close>; with \<open>N = 0\<close> that is one
  worker. Each \<^verbatim>\<open>spawn\<close> adds one to \<^verbatim>\<open>tries\<close>, and \<^verbatim>\<open>parent_child_completed\<close> spawns
  again exactly when the return code is not zero and \<^verbatim>\<open>tries <= max_retries\<close>.
\<close>

theorem domain_failures_spawn_N_plus_1:
  assumes "0 \<le> N" "\<forall>n. \<exists>e. outcome (cb n) = RaisedBstError e"
  shows "(\<exists>j'. job_lifetime um ctx pids (Job stops el name cb N) = Inr j' \<and>
            length (spawns (trace j')) = nat (N + 1) \<and> tries j' = N + 1 \<and>
            completions (trace j') = [(False, PyNone)]) \<and>
         tries (spawn p j) = tries j + 1 \<and>
         (parent_shutdown j = Inr j1 \<longrightarrow>
            parent_child_completed p j rc =
              (if rc \<noteq> 0 \<and> tries j1 \<le> max_retries j1 then Inr (spawn p j1)
               else Inr (j1\<lparr>trace := trace j1 @ [CompleteCb (rc = 0) (result j1)]\<rparr>)))"
proof -
  have "\<forall>n. exit_code (cb n) \<noteq> 0"
    using assms(2) exit_code_BstError by (metis zero_neq_one)
  from job_lifetime_all_fail [OF assms(1) this, of um ctx pids stops el name]
  have "\<exists>j'. job_lifetime um ctx pids (Job stops el name cb N) = Inr j' \<and>
            length (spawns (trace j')) = nat (N + 1) \<and> tries j' = N + 1 \<and>
            completions (trace j') = [(False, PyNone)]"
    by blast
  moreover have "tries (spawn p j) = tries j + 1"
    by (simp add: spawn_def parent_start_listening_def Let_def)
  moreover have "parent_shutdown j = Inr j1 \<longrightarrow>
            parent_child_completed p j rc =
              (if rc \<noteq> 0 \<and> tries j1 \<le> max_retries j1 then Inr (spawn p j1)
               else Inr (j1\<lparr>trace := trace j1 @ [CompleteCb (rc = 0) (result j1)]\<rparr>))"
    by (simp add: parent_child_completed_def)
  ultimately show ?thesis by blast
qed

theorem domain_failures_spawn_N_plus_1_witness:
  "(0::int) \<le> 2 \<and> (\<forall>n. outcome (always_fails n) = RaisedBstError example_error) \<and>
   (\<exists>j'. job_lifetime unconditional_example loud pids_example
            (Job 0 example_element ''Fetch'' always_fails 2) = Inr j' \<and>
         length (spawns (trace j')) = 3 \<and> tries j' = 3 \<and>
         completions (trace j') = [(False, PyNone)]) \<and>
   (\<exists>j'. job_lifetime unconditional_example loud pids_example
            (Job 0 example_element ''Fetch'' always_fails 0) = Inr j' \<and>
         length (spawns (trace j')) = 1 \<and> tries j' = 1 \<and>
         completions (trace j') = [(False, PyNone)])"
  using domain_failures_spawn_N_plus_1 [where N = 2 and cb = always_fails
      and um = unconditional_example and ctx = loud and pids = pids_example and stops = 0
      and el = example_element and name = "''Fetch''"]
    domain_failures_spawn_N_plus_1 [where N = 0 and cb = always_fails
      and um = unconditional_example and ctx = loud and pids = pids_example and stops = 0
      and el = example_element and name = "''Fetch''"]
  by (simp add: always_fails_def)

section \<open>The completion callback\<close>

text \<open>
  Claim C2. Over the life of a Job, \<^verbatim>\<open>complete_cb\<close> is to be called exactly once, with
  \<open>success\<close> as whether the return code is zero and with the result of the last worker,
  or \<^verbatim>\<open>None\<close> when the last worker failed; the comment on \<^verbatim>\<open>complete_cb\<close> says the same
  (\<^verbatim>\<open>result\<close> is \<^verbatim>\<open>None\<close> if \<^verbatim>\<open>success\<close> is \<^verbatim>\<open>False\<close>). The code does not keep to it:
  \<^verbatim>\<open>parent_child_completed\<close> passes \<^verbatim>\<open>self.result\<close> whatever the return code, and nothing
  resets it. A worker that has put its result on the queue and then ends with a return
  code other than zero (an exception while it issues \<^verbatim>\<open>SUCCESS\<close>, or a signal) makes the
  call report \<open>success = False\<close> together with that result when no retry is left. When
  a retry is left, the worker is spawned again with the result still stored, no call is
  made, and the result envelope of the next worker trips
  \<^verbatim>\<open>assert self.result is None\<close>, so that \<^verbatim>\<open>complete_cb\<close> is never called.
\<close>

theorem failed_worker_result_is_reported:
  "map_sum id (completions \<circ> trace) (parent_child_completed 101 (result_then_exit 0) 1) =
     Inr [(False, PyStr ''ok'')] \<and>
   map_sum id (spawns \<circ> trace) (parent_child_completed 101 (result_then_exit 1) 1) =
     Inr [100, 101] \<and>
   map_sum id result (parent_child_completed 101 (result_then_exit 1) 1) =
     Inr (PyStr ''ok'') \<and>
   map_sum id (completions \<circ> trace)
     (job_run unconditional_example loud pids_example
        (projr (parent_child_completed 101 (result_then_exit 1) 1))) =
     Inl AssertionError"
  apply (simp add: result_then_exit_def run_eval)
  apply (subst job_run_unfold, simp add: run_eval)
  done

section \<open>Retries after bugs\<close>

text \<open>
  Claim C3, as the code has it. A worker whose action raises an exception that is not a
  \<^verbatim>\<open>BstError\<close> exits with code 1 like one that hit a domain failure, and the parent
  decides on the exit code alone: a Job with \<^verbatim>\<open>max_retries = N\<close> (\<open>N\<close> not negative)
  whose action hits such a bug on every try spawns \<open>N + 1\<close> workers, one when \<open>N = 0\<close>,
  and ends with one call of \<^verbatim>\<open>complete_cb\<close> with \<open>success = False\<close>.
\<close>

theorem bugs_spawn_N_plus_1:
  assumes "0 \<le> N" "\<forall>n. \<exists>tb. outcome (cb n) = RaisedException tb"
  shows "\<exists>j'. job_lifetime um ctx pids (Job stops el name cb N) = Inr j' \<and>
           length (spawns (trace j')) = nat (N + 1) \<and> tries j' = N + 1 \<and>
           completions (trace j') = [(False, PyNone)]"
proof -
  have "\<forall>n. exit_code (cb n) \<noteq> 0"
    using assms(2) exit_code_Exception by (metis zero_neq_one)
  from job_lifetime_all_fail [OF assms(1) this, of um ctx pids stops el name]
  show ?thesis by blast
qed

theorem bugs_spawn_N_plus_1_witness:
  "(0::int) \<le> 2 \<and> (\<forall>n. outcome (always_bug n) = RaisedException ''KeyError'') \<and>
   (\<exists>j'. job_lifetime unconditional_example loud pids_example
            (Job 0 example_element ''Build'' always_bug 2) = Inr j' \<and>
         length (spawns (trace j')) = 3 \<and> tries j' = 3 \<and>
         completions (trace j') = [(False, PyNone)])"
  using bugs_spawn_N_plus_1 [of 2 always_bug unconditional_example loud
      pids_example 0 example_element "''Build''"]
  by (simp add: always_bug_def)

text \<open>
  With \<^verbatim>\<open>max_retries = 1\<close>, a Job whose action hits a bug on both tries has two workers
  spawned: the bug is retried.
\<close>

theorem bugs_are_retried:
  "outcome (always_bug 1) = RaisedException ''KeyError'' \<and>
   outcome (always_bug 2) = RaisedException ''KeyError'' \<and>
   map_sum id (spawns \<circ> trace)
     (job_lifetime unconditional_example loud pids_example
        (Job 0 example_element ''Build'' always_bug 1)) = Inr [100, 101]"
  apply (simp add: run_eval)
  apply (subst job_run_unfold, simp add: run_eval)
  apply (subst job_run_unfold, simp add: run_eval)
  apply (subst job_run_unfold, simp)
  done

section \<open>Assignments to result and workspace_dict\<close>

text \<open>
  Claim C4, as the code has it. Over the life of a Job, \<^verbatim>\<open>self.result\<close> is assigned at
  most once; \<^verbatim>\<open>self.workspace_dict\<close> is assigned at most once for each worker, as no
  worker puts more than one workspace envelope, so at most as often as workers were
  spawned.
\<close>

theorem assignments_per_worker:
  "\<exists>j'. job_lifetime um ctx pids (Job stops el name cb N) = Inr j' \<and>
        length (result_assignments (trace j')) \<le> 1 \<and>
        length (workspace_assignments (trace j')) \<le> length (spawns (trace j')) \<and>
        (\<forall>n. length (payloads ''workspace''
                (sent (fst (worker um ctx (Job stops el name cb N) n)))) \<le> 1)"
proof -
  have w: "payloads ''workspace'' (sent (fst (worker um ctx (Job stops el name cb N) n))) =
         delivered_workspaces el (cb n)" for n
    by (simp add: worker_def child_action_workspaces) (simp add: Job_def)
  from job_lifetime_summary [of um ctx pids stops el name cb N]
  obtain j' where j': "job_lifetime um ctx pids (Job stops el name cb N) = Inr j'"
      "length (spawns (trace j')) = nat (tries j')"
      "result_assignments (trace j') = delivered_results (cb (tries j'))"
      "length (workspace_assignments (trace j')) \<le> nat (tries j')"
    by blast
  have "length (delivered_results (cb (tries j'))) \<le> 1"
    by (simp add: delivered_results_def split: action_result.splits)
  then show ?thesis
    using j' delivered_workspaces_length unfolding w by auto
qed

theorem assignments_per_worker_witness:
  "\<exists>j'. job_lifetime unconditional_example loud pids_example
          (Job 0 example_element ''Fetch'' fails_once 2) = Inr j' \<and>
        length (result_assignments (trace j')) \<le> 1 \<and>
        spawns (trace j') = [100, 101] \<and>
        length (workspace_assignments (trace j')) = 2"
  using assignments_per_worker [of unconditional_example loud pids_example 0
      example_element "''Fetch''" fails_once 2] fails_once_tries
  by auto

text \<open>
  With \<^verbatim>\<open>max_retries = 1\<close>, an element with a workspace and an action that fails with a
  domain error on the first try and returns on the second, \<^verbatim>\<open>self.workspace_dict\<close> is
  assigned twice.
\<close>

theorem workspace_assigned_twice:
  "map_sum id (workspace_assignments \<circ> trace)
     (job_lifetime unconditional_example loud pids_example
        (Job 0 example_element ''Fetch'' fails_once 1)) =
   Inr [PyDict [(''path'', PyStr ''ws'')], PyDict [(''path'', PyStr ''ws'')]]"
  apply (simp add: run_eval)
  apply (subst job_run_unfold, simp add: run_eval)
  apply (subst job_run_unfold, simp add: run_eval)
  apply (subst job_run_unfold, simp)
  done

section \<open>A worker whose action returns\<close>

text \<open>
  Claim C5. When the action returns, the worker has put, after the message envelopes of
  the run, at most one workspace envelope (one exactly when the element has a
  workspace), then at most one result envelope (one exactly when the value returned is
  not \<^verbatim>\<open>None\<close>), then the \<^verbatim>\<open>SUCCESS\<close> message (written to the log, and put on the queue
  unless the context silences it); it exits with code 0, and no envelope it has put is
  an error envelope.
\<close>

theorem child_action_success:
  assumes "outcome run = Returned r"
  shows "(\<exists>pre. sent (fst (child_action um j ctx run)) =
            pre @
            (case get_workspace (element j) of None \<Rightarrow> [] | Some d \<Rightarrow> [Envelope ''workspace'' d]) @
            (if r \<noteq> PyNone then [Envelope ''result'' r] else []) @
            (if silent_messages ctx \<and> SUCCESS \<notin> set um then []
             else [Envelope ''message''
                     (PyMessage ((Message (get_unique_id (element j)) SUCCESS (action_name j)
                         None (Some (logging_enabled (element j))) None)
                       \<lparr>msg_action_name := Some (action_name j),
                        msg_task_id := Some (get_unique_id (element j))\<rparr>))]) \<and>
            (\<forall>e \<in> set pre. env_type e = ''message'')) \<and>
         message_type (last (logged (fst (child_action um j ctx run)))) = SUCCESS \<and>
         snd (child_action um j ctx run) = 0 \<and>
         (\<forall>e \<in> set (sent (fst (child_action um j ctx run))). env_type e \<noteq> ''error'')"
proof -
  from child_action_Returned [OF assms, of um j ctx]
  obtain pre where pre: "sent (fst (child_action um j ctx run)) =
           pre @ workspace_envelopes (element j) @ result_envelopes r @
           (if silent_messages ctx \<and> SUCCESS \<notin> set um then []
            else [Envelope ''message''
                    (PyMessage ((Message (get_unique_id (element j)) SUCCESS (action_name j)
                        None (Some (logging_enabled (element j))) None)
                      \<lparr>msg_action_name := Some (action_name j),
                       msg_task_id := Some (get_unique_id (element j))\<rparr>))])"
      "\<forall>e \<in> set pre. env_type e = ''message''"
    by blast
  have lg: "message_type (last (logged (fst (child_action um j ctx run)))) = SUCCESS"
    using assms
    by (simp add: child_action_def Let_def child_message_def [of um j ctx SUCCESS]
          child_message_handler_def child_log_def queue_put_def Message_def)
  have ex: "snd (child_action um j ctx run) = 0"
    using assms by (simp add: child_action_exit_code exit_code_def)
  have ne: "\<forall>e \<in> set (sent (fst (child_action um j ctx run))). env_type e \<noteq> ''error''"
    using pre
    by (auto simp: workspace_envelopes_def result_envelopes_def
        split: option.splits if_splits)
  show ?thesis
    using pre lg ex ne
    unfolding workspace_envelopes_def result_envelopes_def by blast
qed

theorem child_action_success_witness:
  "outcome returns_ok = Returned (PyStr ''ok'') \<and>
   map env_type (sent (fst (child_action unconditional_example
      (spawn 100 (Job 0 example_element ''Build'' fails_once 0)) loud returns_ok))) =
     [''message'', ''workspace'', ''result'', ''message''] \<and>
   filter (\<lambda>e. env_type e \<noteq> ''message'') (sent (fst (child_action unconditional_example
      (spawn 100 (Job 0 example_element ''Build'' fails_once 0)) loud returns_ok))) =
     [Envelope ''workspace'' (PyDict [(''path'', PyStr ''ws'')]),
      Envelope ''result'' (PyStr ''ok'')] \<and>
   snd (child_action unconditional_example
      (spawn 100 (Job 0 example_element ''Build'' fails_once 0)) loud returns_ok) = 0"
  using child_action_success [of returns_ok "PyStr ''ok''" unconditional_example
      "spawn 100 (Job 0 example_element ''Build'' fails_once 0)" loud]
  by (simp add: returns_ok_def run_eval)

section \<open>Suspending a Job\<close>

text \<open>
  Claim C6. A call of \<^verbatim>\<open>suspend\<close> on a Job that is not suspended and whose worker
  receives the signal adds exactly one to the scheduler's counter of internal stops and
  sets \<^verbatim>\<open>suspended\<close>; on a Job that is already suspended it changes nothing; when the
  worker has already exited (\<^verbatim>\<open>ProcessLookupError\<close>) neither the counter nor the flag
  changes. Whenever the call returns, the counter has grown by the number of suspend
  signals that were sent.
\<close>

theorem suspend_counts_signals_sent:
  "(\<not> suspended j \<and> process j = Some p \<and> os_kill p SIGTSTP = Sent \<longrightarrow>
      (\<exists>j'. suspend os_kill j = Inr j' \<and> internal_stops j' = internal_stops j + 1 \<and>
            suspended j' \<and> stops_sent (trace j') = stops_sent (trace j) + 1)) \<and>
   (suspended j \<longrightarrow> suspend os_kill j = Inr j) \<and>
   (\<not> suspended j \<and> process j = Some p \<and> os_kill p SIGTSTP = ProcessLookupError \<longrightarrow>
      (\<exists>j'. suspend os_kill j = Inr j' \<and> internal_stops j' = internal_stops j \<and>
            suspended j' = suspended j \<and> stops_sent (trace j') = stops_sent (trace j))) \<and>
   (\<forall>j'. suspend os_kill j = Inr j' \<longrightarrow>
      internal_stops j' - internal_stops j =
        int (stops_sent (trace j')) - int (stops_sent (trace j)))"
  by (auto simp: suspend_def parent_message_def Let_def stops_sent_append
      split: option.splits kill_result.splits)

theorem suspend_counts_signals_sent_witness:
  "\<not> suspended (spawn 100 (Job 0 example_element ''Build'' always_fails 0)) \<and>
   process (spawn 100 (Job 0 example_element ''Build'' always_fails 0)) = Some 100 \<and>
   kill_ok 100 SIGTSTP = Sent \<and>
   kill_gone 100 SIGTSTP = ProcessLookupError \<and>
   suspend kill_ok (spawn 100 (Job 0 example_element ''Build'' always_fails 0)) =
     Inr ((spawn 100 (Job 0 example_element ''Build'' always_fails 0))
           \<lparr>suspended := True, internal_stops := 1,
            trace := trace (spawn 100 (Job 0 example_element ''Build'' always_fails 0)) @
              [ContextMessage (PyMessage (Message 7 STATUS ''Build suspending'' None None None)),
               Kill 100 SIGTSTP]\<rparr>) \<and>
   suspend kill_gone (spawn 100 (Job 0 example_element ''Build'' always_fails 0)) =
     Inr ((spawn 100 (Job 0 example_element ''Build'' always_fails 0))
           \<lparr>trace := trace (spawn 100 (Job 0 example_element ''Build'' always_fails 0)) @
              [ContextMessage (PyMessage (Message 7 STATUS ''Build suspending'' None None None))]\<rparr>) \<and>
   suspend kill_ok
     ((spawn 100 (Job 0 example_element ''Build'' always_fails 0))\<lparr>suspended := True\<rparr>) =
     Inr ((spawn 100 (Job 0 example_element ''Build'' always_fails 0))\<lparr>suspended := True\<rparr>)"
  using suspend_counts_signals_sent [of "spawn 100 (Job 0 example_element ''Build'' always_fails 0)"
      100 kill_ok]
    suspend_counts_signals_sent [of "spawn 100 (Job 0 example_element ''Build'' always_fails 0)"
      100 kill_gone]
    suspend_counts_signals_sent
      [of "(spawn 100 (Job 0 example_element ''Build'' always_fails 0))\<lparr>suspended := True\<rparr>"
      100 kill_ok]
  by (simp add: suspend_def spawn_def Job_def parent_start_listening_def parent_message_def
        Let_def kill_ok_def kill_gone_def example_element_def)

section \<open>The child's message handler\<close>

text \<open>
  Claim C7. The child's message handler forwards a message of type \<^verbatim>\<open>FAIL\<close> with its
  type rewritten to \<^verbatim>\<open>WARN\<close> when \<^verbatim>\<open>tries <= max_retries\<close>; a message of any other type,
  and a \<^verbatim>\<open>FAIL\<close> of a Job that will not be retried, keeps its type. The envelope is put
  on the queue unless the context silences the (rewritten) type or the type is
  \<^verbatim>\<open>LOG\<close>.
\<close>

theorem child_message_handler_downgrade:
  "sent (child_message_handler um j m ctx c) =
     sent c @
     (let ty = (if message_type m = FAIL \<and> tries j \<le> max_retries j then WARN
                else message_type m)
      in if silent_messages ctx \<and> ty \<notin> set um then []
         else if ty = LOG then []
         else [Envelope ''message''
                 (PyMessage (m\<lparr>message_type := ty,
                               msg_action_name := Some (action_name j),
                               msg_task_id := Some (get_unique_id (element j))\<rparr>))])"
  by (simp add: child_message_handler_def child_log_def queue_put_def Let_def)

theorem child_message_handler_downgrade_witness:
  "sent (child_message_handler [WARN, FAIL, BUG]
           (spawn 100 (Job 0 example_element ''Fetch'' always_fails 1))
           (Message 7 FAIL ''fetch failed'' None None None) loud \<lparr> sent = [], logged = [] \<rparr>) =
     [Envelope ''message''
        (PyMessage ((Message 7 FAIL ''fetch failed'' None None None)
           \<lparr>message_type := WARN, msg_action_name := Some ''Fetch'', msg_task_id := Some 7\<rparr>))]"
  using child_message_handler_downgrade [of "[WARN, FAIL, BUG]"
      "spawn 100 (Job 0 example_element ''Fetch'' always_fails 1)"
      "Message 7 FAIL ''fetch failed'' None None None" loud "\<lparr> sent = [], logged = [] \<rparr>"]
  by (simp add: spawn_def Job_def parent_start_listening_def Message_def loud_def
        example_element_def Let_def)

section \<open>The queues of a build\<close>

text \<open>
  Claim C8. The queues that \<^verbatim>\<open>Stream.build\<close> hands to the scheduler are, in this order:
  a TrackQueue when there are elements to track, a PullQueue when the artifact cache has
  fetch remotes, the FetchQueue, the BuildQueue, and a PushQueue when the cache has push
  remotes. So a PullQueue is among them exactly when \<^verbatim>\<open>has_fetch_remotes()\<close> holds, and a
  PushQueue exactly when \<^verbatim>\<open>has_push_remotes()\<close> holds.
\<close>

theorem build_queues_classes:
  "map queue_class (build_queues track_elements has_fetch has_push plan0) =
     (if track_elements \<noteq> [] then [TrackQueue] else []) @
     (if has_fetch then [PullQueue] else []) @
     [FetchQueue True, BuildQueue] @
     (if has_push then [PushQueue] else []) \<and>
   (PullQueue \<in> set (map queue_class (build_queues track_elements has_fetch has_push plan0))
      = has_fetch) \<and>
   (PushQueue \<in> set (map queue_class (build_queues track_elements has_fetch has_push plan0))
      = has_push)"
  by (auto simp: build_queues_def Let_def Queue_def enqueue_def map_update nth_append
           list_update_append split: if_splits)

theorem build_queues_classes_witness:
  "build_queues [1::nat] True False [1, 2, 3] =
     [\<lparr> queue_class = TrackQueue, ready = [1] \<rparr>,
      \<lparr> queue_class = PullQueue, ready = [2, 3] \<rparr>,
      \<lparr> queue_class = FetchQueue True, ready = [] \<rparr>,
      \<lparr> queue_class = BuildQueue, ready = [] \<rparr>]"
  using build_queues_classes [of "[1::nat]" True False "[1, 2, 3]"]
  by (simp add: build_queues_def Let_def Queue_def enqueue_def)

section \<open>The result of TrackQueue.done\<close>

text \<open>
  Claim C9. \<^verbatim>\<open>TrackQueue.done\<close> never returns \<^verbatim>\<open>True\<close>: whatever the element, the result
  and the return code, the value it returns is \<^verbatim>\<open>False\<close>, also after it has saved new
  refs. (It returns for every return code and every list of refs; the one call that
  raises instead is a return code of zero with a result of \<^verbatim>\<open>None\<close>.)
\<close>

theorem trackqueue_done_false:
  "(case trackqueue_done save_ref el res returncode tr of
      Inr (keep, tr') \<Rightarrow> keep = False
    | Inl err \<Rightarrow> returncode = 0 \<and> res = None)"
  by (simp add: trackqueue_done_def Let_def split: option.splits)

theorem trackqueue_done_false_witness:
  "trackqueue_done saves example_element (Some [(3, PyStr ''abc'')]) 0 [] =
     Inr (False, [SaveRef 3 (PyStr ''abc''), PushMessageDepth True, UpdateState 7,
                  PopMessageDepth])"
  using trackqueue_done_false [where save_ref = saves and el = example_element
      and res = "Some [(3, PyStr ''abc'')]" and returncode = 0 and tr = "[]"]
  by (simp add: trackqueue_done_def saves_def example_element_def Let_def)

section \<open>Envelopes that arrive while the parent is not listening\<close>

text \<open>
  Claim C10. While \<^verbatim>\<open>listening\<close> is false, \<^verbatim>\<open>parent_process_envelope\<close> returns at once
  and leaves the Job and the world around it as they are, whatever the envelope: no
  message is forwarded, the last task error is not set, and \<^verbatim>\<open>result\<close> and
  \<^verbatim>\<open>workspace_dict\<close> keep their values.
\<close>

theorem parent_process_envelope_not_listening:
  "\<not> listening j \<Longrightarrow> parent_process_envelope e j = Inr j"
  by (cases e) simp

theorem parent_process_envelope_not_listening_witness:
  "\<not> listening (Job 0 example_element ''Build'' always_fails 2) \<and>
   parent_process_envelope (Envelope ''result'' (PyStr ''ok''))
     (Job 0 example_element ''Build'' always_fails 2) =
   Inr (Job 0 example_element ''Build'' always_fails 2) \<and>
   parent_process_envelope (Envelope ''bogus'' PyNone)
     (Job 0 example_element ''Build'' always_fails 2) =
   Inr (Job 0 example_element ''Build'' always_fails 2)"
proof -
  have h: "\<not> listening (Job 0 example_element ''Build'' always_fails 2)"
    by (simp add: Job_def)
  show ?thesis
    using h parent_process_envelope_not_listening [OF h] by simp
qed

end
